theory Spec2Isabelle
  imports Complex_Main
begin

section \<open>Numbers, dates and JavaScript truthiness\<close>

text \<open>
  The storefront is TypeScript. A JavaScript \<open>number\<close> that carries money is modelled
  as an exact rational (\<^typ>\<open>rat\<close>): the request schemas (\<open>createOrderSchema\<close>,
  \<open>createInvoiceSchema\<close>) only admit finite numbers, so \<open>NaN\<close> and the infinities do
  not reach the arithmetic below; rounding of binary floating point is not modelled.
  Stock counts and quantities are integers (\<open>INTEGER\<close> columns, \<open>z.number().int()\<close>).
  Points in time are milliseconds since the epoch.
\<close>

type_synonym money = rat
type_synonym timestamp = int

text \<open>
  \<open>new Date(s)\<close> of a string that does not parse is an invalid date whose time value is
  \<open>NaN\<close>; every comparison with it is false.
\<close>

datatype js_date = InvalidDate | TimeValue timestamp

fun date_lt :: "js_date \<Rightarrow> js_date \<Rightarrow> bool" where
  "date_lt (TimeValue a) (TimeValue b) = (a < b)"
| "date_lt _ _ = False"

section \<open>Coupon evaluator (\<open>validateCoupon\<close> in \<open>lib/supabase.ts\<close>)\<close>

datatype discount_kind = Percentage | Fixed

datatype applicability = AllProducts | Specific

text \<open>
  The \<open>Coupon\<close> interface. Optional fields are options; \<open>valid_from\<close> and
  \<open>valid_until\<close> are held as the dates their strings parse to, and an absent or empty
  \<open>valid_until\<close> (falsy in JavaScript) is \<open>None\<close>.
\<close>

record coupon =
  coupon_id :: string
  code :: string
  discount_type :: discount_kind
  discount_value :: money
  minimum_order_amount :: "money option"
  max_uses :: "int option"
  current_uses :: int
  one_per_customer :: bool
  valid_from :: js_date
  valid_until :: "js_date option"
  active :: bool
  applicable_to :: applicability
  product_ids :: "string list option"

text \<open>
  The result object \<open>{valid, error?, discount?}\<close>. The minimum-order message embeds the
  threshold (\<open>Minimum order amount of $<threshold> required\<close>), kept here as the number.
\<close>

datatype coupon_error = Message string | MinimumOrderRequired money

datatype coupon_result = Invalid coupon_error | Valid money

text \<open>\<open>cartProductIds.some((id) => coupon.product_ids?.includes(id))\<close>\<close>

definition hasApplicableProduct :: "string list \<Rightarrow> string list \<Rightarrow> bool" where
  "hasApplicableProduct cartProductIds pids = list_ex (\<lambda>i. i \<in> set pids) cartProductIds"

text \<open>
  \<open>x && cond\<close> on an optional number: the guard is skipped when the field is absent
  and also when it is \<open>0\<close>, which is falsy.
\<close>

definition usageLimitReached :: "coupon \<Rightarrow> bool" where
  "usageLimitReached c =
     (case max_uses c of None \<Rightarrow> False | Some m \<Rightarrow> m \<noteq> 0 \<and> current_uses c \<ge> m)"

definition belowMinimum :: "coupon \<Rightarrow> money \<Rightarrow> bool" where
  "belowMinimum c orderTotal =
     (case minimum_order_amount c of None \<Rightarrow> False | Some m \<Rightarrow> m \<noteq> 0 \<and> orderTotal < m)"

definition expired :: "timestamp \<Rightarrow> coupon \<Rightarrow> bool" where
  "expired now c =
     (case valid_until c of None \<Rightarrow> False | Some validUntil \<Rightarrow> date_lt validUntil (TimeValue now))"

definition notApplicable :: "coupon \<Rightarrow> string list option \<Rightarrow> bool" where
  "notApplicable c cartProductIds =
     (case (applicable_to c, product_ids c, cartProductIds) of
        (Specific, Some pids, Some cart) \<Rightarrow> \<not> hasApplicableProduct cart pids
      | _ \<Rightarrow> False)"

definition computeDiscount :: "coupon \<Rightarrow> money \<Rightarrow> money" where
  "computeDiscount c orderTotal =
     (let discount = (if discount_type c = Percentage
                      then (orderTotal * discount_value c) / 100
                      else discount_value c)
      in min discount orderTotal)"

text \<open>The first argument is the clock reading \<open>new Date()\<close>.\<close>

definition validateCoupon ::
  "timestamp \<Rightarrow> coupon \<Rightarrow> money \<Rightarrow> string option \<Rightarrow> string list option \<Rightarrow> coupon_result" where
  "validateCoupon now c orderTotal customerEmail cartProductIds =
     (if \<not> active c then Invalid (Message ''This coupon is not active'')
      else if date_lt (TimeValue now) (valid_from c)
        then Invalid (Message ''This coupon is not yet valid'')
      else if expired now c then Invalid (Message ''This coupon has expired'')
      else if usageLimitReached c
        then Invalid (Message ''This coupon has reached its usage limit'')
      else if belowMinimum c orderTotal
        then Invalid (MinimumOrderRequired (the (minimum_order_amount c)))
      else if notApplicable c cartProductIds
        then Invalid (Message ''This coupon is not applicable to items in your cart'')
      else Valid (computeDiscount c orderTotal))"

text \<open>The checks that precede the applicability check, in the order of the source.\<close>

definition passesEarlierChecks :: "timestamp \<Rightarrow> coupon \<Rightarrow> money \<Rightarrow> bool" where
  "passesEarlierChecks now c orderTotal \<longleftrightarrow>
     active c \<and> \<not> date_lt (TimeValue now) (valid_from c) \<and> \<not> expired now c
     \<and> \<not> usageLimitReached c \<and> \<not> belowMinimum c orderTotal"

section \<open>Invoice creation (\<open>/api/btcpay/create-invoice\<close>)\<close>

datatype crypto = Bitcoin | Monero

text \<open>\<open>preferredCrypto\<close> is \<open>z.enum(["bitcoin", "monero"]).optional()\<close>.\<close>

definition paymentMethods :: "crypto option \<Rightarrow> string list" where
  "paymentMethods preferredCrypto =
     (if preferredCrypto = Some Monero then [''XMR'']
      else if preferredCrypto = Some Bitcoin then [''BTC'']
      else [''BTC'', ''XMR''])"

record checkout_options =
  speedPolicy :: string
  checkout_paymentMethods :: "string list"
  expirationMinutes :: nat

record invoice_body =
  inv_amount :: money
  inv_currency :: string
  meta_orderId :: string
  meta_buyerEmail :: "string option"
  checkout :: checkout_options

record invoice_request =
  ir_amount :: money
  ir_currency :: string
  ir_orderId :: string
  ir_buyerEmail :: "string option"
  ir_preferredCrypto :: "crypto option"

text \<open>The JSON body posted to the gateway's \<open>/invoices\<close> endpoint.\<close>

definition invoiceBody :: "invoice_request \<Rightarrow> invoice_body" where
  "invoiceBody r =
     \<lparr> inv_amount = ir_amount r, inv_currency = ir_currency r,
       meta_orderId = ir_orderId r, meta_buyerEmail = ir_buyerEmail r,
       checkout = \<lparr> speedPolicy = ''HighSpeed'',
                    checkout_paymentMethods = paymentMethods (ir_preferredCrypto r),
                    expirationMinutes = 60 \<rparr> \<rparr>"

section \<open>The datastore\<close>

text \<open>
  Two tables are read and written by the checkout core. A product row is its id and
  its \<open>stock\<close> column (the only column these handlers select or update); an order
  row carries the columns the handlers insert, update or filter on.
\<close>

record selected_modifier =
  groupId :: string
  groupLabel :: string
  optionId :: string
  optionLabel :: string
  priceAdjustment :: money

record order_item =
  item_id :: string
  item_name :: string
  price :: money
  quantity :: int
  originalPrice :: "money option"
  item_discount :: "money option"
  selectedModifiers :: "selected_modifier list option"

record shipping_address =
  addr_name :: string
  addr_email :: "string option"
  addressLine1 :: string
  addressLine2 :: string
  city :: string
  state :: string
  zip :: string
  country :: string
  phone :: "string option"

record order =
  order_id :: string
  order_number :: string
  payment_method :: string
  status :: string
  total_amount :: money
  items :: "order_item list"
  shipping_name :: string
  shipping_email :: "string option"
  shipping_address_line1 :: string
  shipping_address_line2 :: string
  shipping_city :: string
  shipping_state :: string
  shipping_zip :: string
  shipping_country :: string
  shipping_phone :: "string option"
  shipping_cost :: "money option"
  coupon_code :: "string option"
  coupon_discount :: "money option"
  btcpay_invoice_id :: "string option"
  paid_at :: "timestamp option"
  tracking_number :: "string option"
  shipping_tracking_url :: "string option"
  shipping_notification_scheduled_at :: "timestamp option"
  shipping_notification_sent_at :: "timestamp option"

record db =
  products :: "(string \<times> int) list"
  orders :: "order list"

text \<open>
  \<open>.single()\<close> yields the row when the query matches exactly one and an error
  otherwise. Every handler treats an error and a missing row alike
  (\<open>if (error || !data)\<close>), so both are \<open>None\<close>. A query can also fail in transit;
  whether it does is an input of the model (the \<open>bool\<close> argument).
\<close>

definition single :: "'a list \<Rightarrow> 'a option" where
  "single rows = (case rows of [r] \<Rightarrow> Some r | _ \<Rightarrow> None)"

definition fetchStock :: "bool \<Rightarrow> (string \<times> int) list \<Rightarrow> string \<Rightarrow> int option" where
  "fetchStock failed ps pid =
     (if failed then None else map_option snd (single (filter (\<lambda>row. fst row = pid) ps)))"

definition fetchOrder :: "bool \<Rightarrow> order list \<Rightarrow> string \<Rightarrow> order option" where
  "fetchOrder failed os oid =
     (if failed then None else single (filter (\<lambda>row. order_id row = oid) os))"

text \<open>\<open>update({stock: newStock}).eq("id", pid)\<close>: every row with that id.\<close>

definition updateStock :: "(string \<times> int) list \<Rightarrow> string \<Rightarrow> int \<Rightarrow> (string \<times> int) list" where
  "updateStock ps pid newStock = map (\<lambda>row. if fst row = pid then (fst row, newStock) else row) ps"

definition updateOrderPaid :: "order list \<Rightarrow> string \<Rightarrow> timestamp \<Rightarrow> order list" where
  "updateOrderPaid os oid t =
     map (\<lambda>row. if order_id row = oid then row\<lparr>status := ''paid'', paid_at := Some t\<rparr> else row) os"

definition updateSentAt :: "order list \<Rightarrow> string \<Rightarrow> timestamp \<Rightarrow> order list" where
  "updateSentAt os oid t =
     map (\<lambda>row. if order_id row = oid then row\<lparr>shipping_notification_sent_at := Some t\<rparr> else row) os"

section \<open>HTTP requests and responses\<close>

text \<open>
  Each route handler first consults the rate limiter, parses the JSON body and checks
  it against its schema; none of these steps touches the datastore. A request is
  therefore given by the outcome of these steps.
\<close>

datatype 'a request =
    TooManyRequests
  | InvalidJson
  | SchemaViolation string
  | Validated 'a

datatype response_body =
    ErrorBody string
  | InsufficientStockBody string int
  | OrderCreatedBody string string
  | SuccessBody "string option"

datatype response = Response nat response_body

section \<open>Order creation (\<open>/api/orders/create\<close>)\<close>

record create_order_data =
  co_items :: "order_item list"
  totalAmount :: money
  shippingAddress :: shipping_address
  shippingCost :: "money option"
  couponCode :: "string option"
  couponDiscount :: "money option"

text \<open>
  What the handler takes from its surroundings: whether the stock query of the
  \<open>i\<close>-th line item fails, the generated order number, and the outcome of the insert
  (\<open>None\<close> for an error, otherwise the id the datastore assigned to the new row).
\<close>

record create_order_env =
  stock_query_failed :: "nat \<Rightarrow> bool"
  generated_order_number :: string
  insert_outcome :: "string option"

text \<open>The stock loop; \<open>None\<close> when every line item passes.\<close>

fun checkStock ::
  "(nat \<Rightarrow> bool) \<Rightarrow> (string \<times> int) list \<Rightarrow> nat \<Rightarrow> order_item list \<Rightarrow> response option" where
  "checkStock failed ps i [] = None"
| "checkStock failed ps i (item # rest) =
     (case fetchStock (failed i) ps (item_id item) of
        None \<Rightarrow> Some (Response 400 (ErrorBody (''Product '' @ item_name item @ '' not found'')))
      | Some stock \<Rightarrow>
          if stock < quantity item
          then Some (Response 400 (InsufficientStockBody (item_name item) stock))
          else checkStock failed ps (Suc i) rest)"

definition modifierTotal :: "order_item \<Rightarrow> money" where
  "modifierTotal item =
     (case selectedModifiers item of
        None \<Rightarrow> 0
      | Some mods \<Rightarrow> foldl (\<lambda>modSum m. modSum + priceAdjustment m) 0 mods)"

definition calculatedSubtotal :: "order_item list \<Rightarrow> money" where
  "calculatedSubtotal its =
     foldl (\<lambda>sum item. sum + (price item + modifierTotal item) * of_int (quantity item)) 0 its"

definition calculatedTotal :: "create_order_data \<Rightarrow> money" where
  "calculatedTotal d =
     calculatedSubtotal (co_items d)
       + (case shippingCost d of None \<Rightarrow> 0 | Some c \<Rightarrow> c)
       - (case couponDiscount d of None \<Rightarrow> 0 | Some c \<Rightarrow> c)"

text \<open>
  The total as the specification words it: the sum over the line items of (unit price
  plus the sum of the selected modifiers' price deltas) times quantity, plus the shipping
  cost, minus the coupon discount. It is compared with \<open>calculatedTotal\<close> below.
\<close>

definition selected :: "order_item \<Rightarrow> selected_modifier list" where
  "selected item = (case selectedModifiers item of None \<Rightarrow> [] | Some mods \<Rightarrow> mods)"


text \<open>The inserted row; columns the insert does not name take their defaults.\<close>

definition newOrderRow :: "string \<Rightarrow> string \<Rightarrow> create_order_data \<Rightarrow> order" where
  "newOrderRow oid orderNumber d =
     \<lparr> order_id = oid,
       order_number = orderNumber,
       payment_method = ''btcpay'',
       status = ''pending'',
       total_amount = totalAmount d,
       items = co_items d,
       shipping_name = addr_name (shippingAddress d),
       shipping_email = addr_email (shippingAddress d),
       shipping_address_line1 = addressLine1 (shippingAddress d),
       shipping_address_line2 = addressLine2 (shippingAddress d),
       shipping_city = city (shippingAddress d),
       shipping_state = state (shippingAddress d),
       shipping_zip = zip (shippingAddress d),
       shipping_country = country (shippingAddress d),
       shipping_phone = phone (shippingAddress d),
       shipping_cost = shippingCost d,
       coupon_code = couponCode d,
       coupon_discount = couponDiscount d,
       btcpay_invoice_id = None,
       paid_at = None,
       tracking_number = None,
       shipping_tracking_url = None,
       shipping_notification_scheduled_at = None,
       shipping_notification_sent_at = None \<rparr>"

definition createOrder ::
  "create_order_env \<Rightarrow> db \<Rightarrow> create_order_data request \<Rightarrow> db \<times> response" where
  "createOrder env d rq =
     (case rq of
        TooManyRequests \<Rightarrow>
          (d, Response 429 (ErrorBody ''Too many order creation attempts. Please wait before trying again.''))
      | InvalidJson \<Rightarrow> (d, Response 400 (ErrorBody ''Invalid request body''))
      | SchemaViolation msg \<Rightarrow> (d, Response 400 (ErrorBody msg))
      | Validated v \<Rightarrow>
          (case checkStock (stock_query_failed env) (products d) 0 (co_items v) of
             Some rejection \<Rightarrow> (d, rejection)
           | None \<Rightarrow>
               if \<bar>calculatedTotal v - totalAmount v\<bar> > 1 / 100
               then (d, Response 400 (ErrorBody ''Order total validation failed''))
               else (case insert_outcome env of
                       None \<Rightarrow> (d, Response 500 (ErrorBody ''Failed to create order''))
                     | Some oid \<Rightarrow>
                         (d\<lparr>orders := orders d @ [newOrderRow oid (generated_order_number env) v]\<rparr>,
                          Response 200 (OrderCreatedBody oid (generated_order_number env))))))"

section \<open>Settlement (\<open>/api/orders/mark-paid\<close>)\<close>

text \<open>
  The surroundings of one call: whether the order query fails, whether the stock query
  and the stock update of the \<open>i\<close>-th line item fail, whether the final order update
  fails, and the clock reading written to \<open>paid_at\<close>.
\<close>

record mark_paid_env =
  order_query_failed :: bool
  product_query_failed :: "nat \<Rightarrow> bool"
  product_update_failed :: "nat \<Rightarrow> bool"
  order_update_failed :: bool
  paid_time :: timestamp

text \<open>
  The body of the stock loop for the \<open>i\<close>-th line item: a product that cannot be read
  is skipped (\<open>continue\<close>), and a failed update is logged and leaves the row as it was.
\<close>

definition decrementItem ::
  "mark_paid_env \<Rightarrow> nat \<Rightarrow> (string \<times> int) list \<Rightarrow> order_item \<Rightarrow> (string \<times> int) list" where
  "decrementItem env i ps item =
     (case fetchStock (product_query_failed env i) ps (item_id item) of
        None \<Rightarrow> ps
      | Some stock \<Rightarrow>
          (let newStock = max 0 (stock - quantity item)
           in if product_update_failed env i then ps else updateStock ps (item_id item) newStock))"

fun decrementStock ::
  "mark_paid_env \<Rightarrow> nat \<Rightarrow> (string \<times> int) list \<Rightarrow> order_item list \<Rightarrow> (string \<times> int) list" where
  "decrementStock env i ps [] = ps"
| "decrementStock env i ps (item # rest) = decrementStock env (Suc i) (decrementItem env i ps item) rest"

definition markPaid :: "mark_paid_env \<Rightarrow> db \<Rightarrow> string request \<Rightarrow> db \<times> response" where
  "markPaid env d rq =
     (case rq of
        TooManyRequests \<Rightarrow> (d, Response 429 (ErrorBody ''Too many requests''))
      | InvalidJson \<Rightarrow> (d, Response 400 (ErrorBody ''Invalid request body''))
      | SchemaViolation msg \<Rightarrow> (d, Response 400 (ErrorBody msg))
      | Validated oid \<Rightarrow>
          (case fetchOrder (order_query_failed env) (orders d) oid of
             None \<Rightarrow> (d, Response 404 (ErrorBody ''Order not found''))
           | Some existingOrder \<Rightarrow>
               if status existingOrder = ''paid''
               then (d, Response 200 (SuccessBody (Some ''Order already marked as paid'')))
               else
                 (let d1 = d\<lparr>products := decrementStock env 0 (products d) (items existingOrder)\<rparr>
                  in if order_update_failed env
                     then (d1, Response 500 (ErrorBody ''Failed to update order''))
                     else (d1\<lparr>orders := updateOrderPaid (orders d1) oid (paid_time env)\<rparr>,
                           Response 200 (SuccessBody None)))))"

text \<open>The response of the short-circuit on an order that is already paid.\<close>

definition alreadyPaid :: response where
  "alreadyPaid = Response 200 (SuccessBody (Some ''Order already marked as paid''))"

section \<open>Scheduled shipping-notification sweep\<close>

text \<open>The filter of the query in \<open>processPendingNotifications\<close>, at clock reading \<open>now\<close>.\<close>

definition pendingNotification :: "timestamp \<Rightarrow> order \<Rightarrow> bool" where
  "pendingNotification now row \<longleftrightarrow>
     shipping_notification_scheduled_at row \<noteq> None
     \<and> shipping_notification_sent_at row = None
     \<and> (case shipping_notification_scheduled_at row of None \<Rightarrow> False | Some t \<Rightarrow> t \<le> now)
     \<and> shipping_email row \<noteq> None
     \<and> tracking_number row \<noteq> None
     \<and> shipping_tracking_url row \<noteq> None"

definition selectPending :: "timestamp \<Rightarrow> order list \<Rightarrow> order list" where
  "selectPending now os = filter (pendingNotification now) os"

text \<open>
  The surroundings of one sweep: the clock reading of the query, whether the query
  fails, for the \<open>i\<close>-th selected order whether \<open>sendShippingEmail\<close> returns true and
  whether the update that stamps it fails, and the clock reading written by that update.
\<close>

record sweep_env =
  sweep_now :: timestamp
  sweep_query_failed :: bool
  emailSent :: "nat \<Rightarrow> bool"
  stamp_failed :: "nat \<Rightarrow> bool"
  stamp_time :: "nat \<Rightarrow> timestamp"

text \<open>
  The loop over the selected orders. Besides the table it returns the send attempts:
  the id of each order a send was attempted for, with the result of the send.
\<close>

fun processOrders ::
  "sweep_env \<Rightarrow> nat \<Rightarrow> order list \<Rightarrow> order list \<Rightarrow> order list \<times> (string \<times> bool) list" where
  "processOrders env i os [] = (os, [])"
| "processOrders env i os (row # rest) =
     (let os1 = (if emailSent env i \<and> \<not> stamp_failed env i
                 then updateSentAt os (order_id row) (stamp_time env i) else os);
          (os2, attempts) = processOrders env (Suc i) os1 rest
      in (os2, (order_id row, emailSent env i) # attempts))"

definition processPendingNotifications :: "sweep_env \<Rightarrow> db \<Rightarrow> db \<times> (string \<times> bool) list" where
  "processPendingNotifications env d =
     (if sweep_query_failed env then (d, [])
      else (let selected = selectPending (sweep_now env) (orders d)
            in if selected = [] then (d, [])
               else (let (os, attempts) = processOrders env 0 (orders d) selected
                     in (d\<lparr>orders := os\<rparr>, attempts))))"

section \<open>Payment-screen poller\<close>

text \<open>
  One run of \<open>fetchInvoiceStatus\<close> either fails (the error is logged and nothing
  changes) or observes the invoice's status and expiration time at some clock reading.
\<close>

datatype poll = FetchFailed | Observed string int int

text \<open>
  The state of the payment screen: the component's \<open>status\<close>, \<open>timeLeft\<close> and
  \<open>completionTriggered\<close>, the checkout page's \<open>paymentProcessedRef\<close>, and two logs:
  the polls at which \<open>onComplete\<close> was called, and the polls at which
  \<open>handlePaymentComplete\<close> went past its guard and ran the settlement side effects.
\<close>

record screen =
  shown_status :: string
  timeLeft :: int
  completionTriggered :: bool
  paymentProcessedRef :: bool
  onComplete_calls :: "nat list"
  settlements :: "nat list"

definition initialScreen :: screen where
  "initialScreen =
     \<lparr> shown_status = ''new'', timeLeft = 900, completionTriggered = False,
       paymentProcessedRef = False, onComplete_calls = [], settlements = [] \<rparr>"

definition terminalEquivalent :: "string \<Rightarrow> bool" where
  "terminalEquivalent st \<longleftrightarrow> st = ''Settled'' \<or> st = ''Processing''"

definition handlePaymentComplete :: "nat \<Rightarrow> screen \<Rightarrow> screen" where
  "handlePaymentComplete k s =
     (if paymentProcessedRef s then s
      else s\<lparr>paymentProcessedRef := True, settlements := settlements s @ [k]\<rparr>)"

text \<open>
  \<open>captured\<close> is the value of \<open>completionTriggered\<close> the callback closed over; \<open>k\<close>
  numbers the poll. The clock is in milliseconds, the expiration time in seconds.
\<close>

definition fetchInvoiceStatus :: "bool \<Rightarrow> nat \<Rightarrow> poll \<Rightarrow> screen \<Rightarrow> screen" where
  "fetchInvoiceStatus captured k p s =
     (case p of
        FetchFailed \<Rightarrow> s
      | Observed st expirationTime nowMs \<Rightarrow>
          (let s1 = s\<lparr>shown_status := st,
                      timeLeft := max 0 \<lfloor>of_int expirationTime - (of_int nowMs :: rat) / 1000\<rfloor>\<rparr>
           in if terminalEquivalent st \<and> \<not> captured
              then handlePaymentComplete k
                     (s1\<lparr>completionTriggered := True, onComplete_calls := onComplete_calls s1 @ [k]\<rparr>)
              else s1))"

text \<open>
  Successive polls on the single UI thread: each poll runs the callback of the latest
  render, which closed over the current \<open>completionTriggered\<close>. Polling goes on for
  as long as polls arrive; nothing in the component stops it on completion.
\<close>

fun runPolls :: "nat \<Rightarrow> poll list \<Rightarrow> screen \<Rightarrow> screen" where
  "runPolls k [] s = s"
| "runPolls k (p # ps) s = runPolls (Suc k) ps (fetchInvoiceStatus (completionTriggered s) k p s)"

text \<open>
  Polls whose callbacks may be stale: the \<open>k\<close>-th poll runs with whatever value of
  \<open>completionTriggered\<close> its callback captured, given with the poll.
\<close>

fun runStalePolls :: "nat \<Rightarrow> (bool \<times> poll) list \<Rightarrow> screen \<Rightarrow> screen" where
  "runStalePolls k [] s = s"
| "runStalePolls k ((captured, p) # ps) s = runStalePolls (Suc k) ps (fetchInvoiceStatus captured k p s)"

fun pollStatus :: "poll \<Rightarrow> string option" where
  "pollStatus FetchFailed = None"
| "pollStatus (Observed st _ _) = Some st"

definition observesTerminal :: "poll \<Rightarrow> bool" where
  "observesTerminal p = (case pollStatus p of None \<Rightarrow> False | Some st \<Rightarrow> terminalEquivalent st)"

text \<open>The part of the screen state that the two completion guards read and write.\<close>

definition completionState :: "screen \<Rightarrow> bool \<times> bool \<times> nat list \<times> nat list" where
  "completionState s = (completionTriggered s, paymentProcessedRef s, onComplete_calls s, settlements s)"

section \<open>Worked scenarios\<close>

text \<open>Concrete inputs on which the properties below are exercised.\<close>

definition scenarioCoupon :: coupon where
  "scenarioCoupon =
     \<lparr> coupon_id = ''c1'', code = ''SAVE10'', discount_type = Percentage, discount_value = 10,
       minimum_order_amount = Some 50, max_uses = None, current_uses = 0,
       one_per_customer = False, valid_from = TimeValue 0, valid_until = None,
       active = True, applicable_to = AllProducts, product_ids = None \<rparr>"

definition specificCoupon :: coupon where
  "specificCoupon = scenarioCoupon\<lparr>applicable_to := Specific, product_ids := Some [''p1'']\<rparr>"

definition scenarioAddress :: shipping_address where
  "scenarioAddress =
     \<lparr> addr_name = ''Ada Lovelace'', addr_email = Some ''ada@example.org'',
       addressLine1 = ''12 Analytical Row'', addressLine2 = '''', city = ''London'',
       state = ''London'', zip = ''N1 9GU'', country = ''GB'', phone = None \<rparr>"

definition scenarioItem :: order_item where
  "scenarioItem =
     \<lparr> item_id = ''p1'', item_name = ''Reagent'', price = 20, quantity = 3,
       originalPrice = None, item_discount = None,
       selectedModifiers = Some [\<lparr> groupId = ''g'', groupLabel = ''Size'', optionId = ''o'',
                                   optionLabel = ''Large'', priceAdjustment = 5 \<rparr>] \<rparr>"

definition scenarioOrder :: create_order_data where
  "scenarioOrder =
     \<lparr> co_items = [scenarioItem], totalAmount = 75, shippingAddress = scenarioAddress,
       shippingCost = None, couponCode = None, couponDiscount = None \<rparr>"

definition scenarioCreateEnv :: create_order_env where
  "scenarioCreateEnv =
     \<lparr> stock_query_failed = (\<lambda>i. False), generated_order_number = ''ORD-1-ABCDEFG'',
       insert_outcome = Some ''o1'' \<rparr>"

definition scenarioDb :: "int \<Rightarrow> db" where
  "scenarioDb stock = \<lparr> products = [(''p1'', stock)], orders = [] \<rparr>"

definition settlementDb :: "int \<Rightarrow> db" where
  "settlementDb stock =
     \<lparr> products = [(''p1'', stock)],
       orders = [newOrderRow ''o1'' ''ORD-1-ABCDEFG'' scenarioOrder] \<rparr>"

definition settlementEnv :: "bool \<Rightarrow> mark_paid_env" where
  "settlementEnv updateFails =
     \<lparr> order_query_failed = False, product_query_failed = (\<lambda>i. False),
       product_update_failed = (\<lambda>i. False), order_update_failed = updateFails,
       paid_time = 5000 \<rparr>"


definition shippedRow :: order where
  "shippedRow =
     (newOrderRow ''o1'' ''ORD-1-ABCDEFG'' scenarioOrder)
       \<lparr> status := ''shipped'', tracking_number := Some ''1Z999'',
         shipping_tracking_url := Some ''https://carrier.example/1Z999'',
         shipping_notification_scheduled_at := Some 0 \<rparr>"

definition sweepEnv :: "bool \<Rightarrow> sweep_env" where
  "sweepEnv sendOk =
     \<lparr> sweep_now = 3600000, sweep_query_failed = False, emailSent = (\<lambda>i. sendOk),
       stamp_failed = (\<lambda>i. False), stamp_time = (\<lambda>i. 3600001) \<rparr>"

section \<open>Verified properties: coupon evaluator and invoice creation\<close>

lemma hasApplicableProduct_iff:
  "hasApplicableProduct cart pids \<longleftrightarrow> set cart \<inter> set pids \<noteq> {}"
  by (auto simp: hasApplicableProduct_def list_ex_iff)

lemmas coupon_check_defs =
  validateCoupon_def expired_def usageLimitReached_def belowMinimum_def notApplicable_def
  computeDiscount_def passesEarlierChecks_def

text \<open>
  C5, as stated, fails. For the preference \<open>bitcoin\<close> the filter sent to the gateway is
  the one code \<open>BTC\<close>; there is no second, lightning code in it.
\<close>

theorem payment_methods_bitcoin_counterexample:
  "paymentMethods (Some Bitcoin) = [''BTC''] \<and> length (paymentMethods (Some Bitcoin)) = 1"
  by (simp add: paymentMethods_def)

text \<open>
  C5, amended. The payment-method filter in the body posted to the gateway is determined
  by the preference: \<open>bitcoin\<close> gives the single code \<open>BTC\<close>, \<open>monero\<close> the single code
  \<open>XMR\<close>, and an unset preference both codes, \<open>BTC\<close> then \<open>XMR\<close>.
\<close>

theorem payment_methods_by_preference:
  "checkout_paymentMethods (checkout (invoiceBody r)) =
     (case ir_preferredCrypto r of
        Some Bitcoin \<Rightarrow> [''BTC'']
      | Some Monero \<Rightarrow> [''XMR'']
      | None \<Rightarrow> [''BTC'', ''XMR''])"
  by (simp add: invoiceBody_def paymentMethods_def split: option.split crypto.split)



text \<open>
  C7, as stated, fails when the cart product id list is absent: a coupon restricted to
  product \<open>p1\<close> that passes the earlier checks is accepted, because the applicability
  check is guarded by the presence of the list.
\<close>

theorem coupon_specific_absent_cart_counterexample:
  "applicable_to specificCoupon = Specific
   \<and> passesEarlierChecks 1000 specificCoupon 100
   \<and> validateCoupon 1000 specificCoupon 100 None None = Valid 10"
  by (simp add: coupon_check_defs scenarioCoupon_def specificCoupon_def)

text \<open>
  C7, amended. For a coupon whose applicability is \<open>specific\<close> and that passes the earlier
  checks, the evaluator returns the error "This coupon is not applicable to items in your
  cart" exactly when the coupon has a product id set, a cart product id list is supplied
  (an empty one included), and no id of the list is in the set. When the list or the set
  is absent the check is skipped.
\<close>

theorem coupon_specific_applicability:
  assumes "applicable_to c = Specific" and "passesEarlierChecks now c orderTotal"
  shows "validateCoupon now c orderTotal customerEmail cartProductIds
           = Invalid (Message ''This coupon is not applicable to items in your cart'')
         \<longleftrightarrow> (\<exists>pids cart. product_ids c = Some pids \<and> cartProductIds = Some cart
                \<and> set cart \<inter> set pids = {})"
  using assms
  by (auto simp: validateCoupon_def passesEarlierChecks_def notApplicable_def
      hasApplicableProduct_iff split: option.splits)

theorem coupon_specific_applicability_witness:
  "validateCoupon 1000 specificCoupon 100 None (Some [])
     = Invalid (Message ''This coupon is not applicable to items in your cart'')
   \<and> validateCoupon 1000 specificCoupon 100 None (Some [''p2''])
     = Invalid (Message ''This coupon is not applicable to items in your cart'')"
proof -
  have s: "applicable_to specificCoupon = Specific" by (simp add: specificCoupon_def)
  have p: "passesEarlierChecks 1000 specificCoupon 100"
    by (simp add: coupon_check_defs scenarioCoupon_def specificCoupon_def)
  have i: "product_ids specificCoupon = Some [''p1'']" by (simp add: specificCoupon_def)
  from coupon_specific_applicability [OF s p, of None "Some []"]
       coupon_specific_applicability [OF s p, of None "Some [''p2'']"] i
  show ?thesis by simp
qed

section \<open>Verified properties: order creation\<close>




lemma checkStock_status:
  "checkStock failed ps i its = Some r \<Longrightarrow> \<exists>b. r = Response 400 b"
  by (induction its arbitrary: i) (auto split: option.splits if_splits)



lemma checkStock_prefix:
  assumes "\<forall>j<length pre. \<exists>s. fetchStock (failed (i + j)) ps (item_id (pre ! j)) = Some s
             \<and> quantity (pre ! j) \<le> s"
  shows "checkStock failed ps i (pre @ rest) = checkStock failed ps (i + length pre) rest"
  using assms
proof (induction pre arbitrary: i)
  case Nil
  then show ?case by simp
next
  case (Cons item pre)
  from Cons.prems [rule_format, of 0] obtain s
    where s: "fetchStock (failed i) ps (item_id item) = Some s" "quantity item \<le> s"
    by auto
  have "\<forall>j<length pre. \<exists>s. fetchStock (failed (Suc i + j)) ps (item_id (pre ! j)) = Some s
             \<and> quantity (pre ! j) \<le> s"
  proof (intro allI impI)
    fix j assume "j < length pre"
    then have "Suc j < length (item # pre)" by simp
    from Cons.prems [rule_format, OF this] show
      "\<exists>s. fetchStock (failed (Suc i + j)) ps (item_id (pre ! j)) = Some s \<and> quantity (pre ! j) \<le> s"
      by simp
  qed
  from Cons.IH [OF this] s show ?case by simp
qed

lemma checkStock_None_passes:
  assumes "checkStock failed ps i its = None" and "j < length its"
  shows "\<exists>s. fetchStock (failed (i + j)) ps (item_id (its ! j)) = Some s \<and> quantity (its ! j) \<le> s"
  using assms
proof (induction its arbitrary: i j)
  case Nil
  then show ?case by simp
next
  case (Cons item its)
  from Cons.prems(1) obtain s where s: "fetchStock (failed i) ps (item_id item) = Some s"
    "quantity item \<le> s" "checkStock failed ps (Suc i) its = None"
    by (auto split: option.splits if_splits)
  show ?case
  proof (cases j)
    case 0
    with s show ?thesis by simp
  next
    case (Suc j')
    with Cons.prems(2) have "j' < length its" by simp
    from Cons.IH [OF s(3) this] Suc show ?thesis by simp
  qed
qed

text \<open>
  C8. The stock loop fetches the product of every line item. If for some line item the
  product cannot be fetched, or the requested quantity exceeds the stock fetched, the
  whole request is rejected with status 400 and the datastore is left as it was (no order
  row is created). The rejection names the first such line item: for a missing product it
  is "Product <name> not found", for a short one it reports the product name and the
  available stock.
\<close>

theorem create_order_stock_check:
  assumes "k < length (co_items v)" and "item = co_items v ! k"
    and "found = fetchStock (stock_query_failed env k) (products d) (item_id item)"
    and "found = None \<or> (\<exists>s. found = Some s \<and> s < quantity item)"
  shows "(\<exists>b. createOrder env d (Validated v) = (d, Response 400 b))
       \<and> ((\<forall>j<k. \<exists>s. fetchStock (stock_query_failed env j) (products d) (item_id (co_items v ! j)) = Some s
                    \<and> quantity (co_items v ! j) \<le> s) \<longrightarrow>
           createOrder env d (Validated v)
             = (d, Response 400
                     (case found of
                        None \<Rightarrow> ErrorBody (''Product '' @ item_name item @ '' not found'')
                      | Some s \<Rightarrow> InsufficientStockBody (item_name item) s)))"
proof
  let ?check = "checkStock (stock_query_failed env) (products d) 0 (co_items v)"
  have "?check \<noteq> None"
  proof
    assume "?check = None"
    from checkStock_None_passes [OF this assms(1)] assms(2-4) show False by auto
  qed
  then obtain r where r: "?check = Some r" by auto
  from checkStock_status [OF r] r
  show "\<exists>b. createOrder env d (Validated v) = (d, Response 400 b)"
    by (auto simp: createOrder_def)
next
  show "(\<forall>j<k. \<exists>s. fetchStock (stock_query_failed env j) (products d) (item_id (co_items v ! j)) = Some s
                    \<and> quantity (co_items v ! j) \<le> s) \<longrightarrow>
           createOrder env d (Validated v)
             = (d, Response 400
                     (case found of
                        None \<Rightarrow> ErrorBody (''Product '' @ item_name item @ '' not found'')
                      | Some s \<Rightarrow> InsufficientStockBody (item_name item) s))"
  proof
    assume pass: "\<forall>j<k. \<exists>s. fetchStock (stock_query_failed env j) (products d) (item_id (co_items v ! j)) = Some s
                    \<and> quantity (co_items v ! j) \<le> s"
    define pre where "pre = take k (co_items v)"
    define post where "post = drop (Suc k) (co_items v)"
    have len: "length pre = k" using assms(1) by (simp add: pre_def)
    have split: "co_items v = pre @ item # post"
      using assms(1,2) by (simp add: pre_def post_def id_take_nth_drop)
    have "\<forall>j<length pre. \<exists>s. fetchStock (stock_query_failed env (0 + j)) (products d) (item_id (pre ! j)) = Some s
             \<and> quantity (pre ! j) \<le> s"
      using pass len by (simp add: pre_def)
    from checkStock_prefix [OF this, of "item # post"]
    have "checkStock (stock_query_failed env) (products d) 0 (pre @ item # post)
            = checkStock (stock_query_failed env) (products d) k (item # post)"
      by (simp add: len)
    then have "checkStock (stock_query_failed env) (products d) 0 (co_items v)
            = checkStock (stock_query_failed env) (products d) k (item # post)"
      by (simp only: split [symmetric])
    with assms(3,4) show "createOrder env d (Validated v)
             = (d, Response 400
                     (case found of
                        None \<Rightarrow> ErrorBody (''Product '' @ item_name item @ '' not found'')
                      | Some s \<Rightarrow> InsufficientStockBody (item_name item) s))"
      by (auto simp: createOrder_def)
  qed
qed

text \<open>
  Stock 2 and a requested quantity of 5: rejected, with the name and \<open>availableStock\<close> 2.
  A second line item for an unknown product: "Product Reagent not found".
\<close>

theorem create_order_stock_check_witness:
  "createOrder scenarioCreateEnv (scenarioDb 2) (Validated (scenarioOrder\<lparr>co_items := [scenarioItem\<lparr>quantity := 5\<rparr>]\<rparr>))
     = (scenarioDb 2, Response 400 (InsufficientStockBody ''Reagent'' 2))
   \<and> createOrder scenarioCreateEnv (scenarioDb 2)
        (Validated (scenarioOrder\<lparr>co_items := [scenarioItem\<lparr>quantity := 2\<rparr>, scenarioItem\<lparr>item_id := ''p9''\<rparr>]\<rparr>))
     = (scenarioDb 2, Response 400 (ErrorBody ''Product Reagent not found''))"
proof -
  let ?v1 = "scenarioOrder\<lparr>co_items := [scenarioItem\<lparr>quantity := 5\<rparr>]\<rparr>"
  let ?v2 = "scenarioOrder\<lparr>co_items := [scenarioItem\<lparr>quantity := 2\<rparr>, scenarioItem\<lparr>item_id := ''p9''\<rparr>]\<rparr>"
  have f1: "Some 2 = fetchStock (stock_query_failed scenarioCreateEnv 0)
              (products (scenarioDb 2)) (item_id (scenarioItem\<lparr>quantity := 5\<rparr>))"
    by (simp add: scenarioCreateEnv_def scenarioDb_def scenarioItem_def fetchStock_def single_def)
  have f2: "None = fetchStock (stock_query_failed scenarioCreateEnv 1)
              (products (scenarioDb 2)) (item_id (scenarioItem\<lparr>item_id := ''p9''\<rparr>))"
    by (simp add: scenarioCreateEnv_def scenarioDb_def scenarioItem_def fetchStock_def single_def)
  have p2: "\<forall>j<1. \<exists>s. fetchStock (stock_query_failed scenarioCreateEnv j) (products (scenarioDb 2))
              (item_id (co_items ?v2 ! j)) = Some s \<and> quantity (co_items ?v2 ! j) \<le> s"
    by (simp add: scenarioCreateEnv_def scenarioDb_def scenarioItem_def fetchStock_def single_def)
  have a: "createOrder scenarioCreateEnv (scenarioDb 2) (Validated ?v1)
     = (scenarioDb 2, Response 400 (InsufficientStockBody ''Reagent'' 2))"
    using create_order_stock_check [of 0 ?v1 "scenarioItem\<lparr>quantity := 5\<rparr>" "Some 2"
        scenarioCreateEnv "scenarioDb 2", OF _ _ f1]
    by (simp add: scenarioItem_def)
  have b: "createOrder scenarioCreateEnv (scenarioDb 2) (Validated ?v2)
     = (scenarioDb 2, Response 400 (ErrorBody ''Product Reagent not found''))"
    using create_order_stock_check [of 1 ?v2 "scenarioItem\<lparr>item_id := ''p9''\<rparr>" None
        scenarioCreateEnv "scenarioDb 2", OF _ _ f2] p2
    by (simp add: scenarioItem_def)
  from a b show ?thesis by simp
qed

section \<open>Verified properties: settlement\<close>

lemma filter_updateStock:
  "filter (\<lambda>row. fst row = pid) (updateStock ps pid v)
     = map (\<lambda>row. (fst row, v)) (filter (\<lambda>row. fst row = pid) ps)"
  by (induction ps) (simp_all add: updateStock_def)

lemma fetchStock_updateStock:
  assumes "fetchStock failed ps pid = Some s"
  shows "fetchStock False (updateStock ps pid v) pid = Some v"
proof -
  from assms obtain r where "filter (\<lambda>row. fst row = pid) ps = [r]"
    by (auto simp: fetchStock_def single_def split: if_splits list.splits)
  then show ?thesis by (simp add: fetchStock_def single_def filter_updateStock)
qed

lemma updateStock_written:
  "row \<in> set (updateStock ps pid v) \<Longrightarrow> row \<in> set ps \<or> snd row = v"
  by (auto simp: updateStock_def)

lemma decrementItem_written:
  "row \<in> set (decrementItem env i ps item) \<Longrightarrow> row \<in> set ps \<or> 0 \<le> snd row"
  by (auto simp: decrementItem_def Let_def split: option.splits if_splits dest!: updateStock_written)

lemma decrementItem_nonneg:
  "\<forall>row\<in>set ps. 0 \<le> snd row \<Longrightarrow> \<forall>row\<in>set (decrementItem env i ps item). 0 \<le> snd row"
  using decrementItem_written by blast

lemma decrementStock_nonneg:
  "\<forall>row\<in>set ps. 0 \<le> snd row \<Longrightarrow> \<forall>row\<in>set (decrementStock env i ps its). 0 \<le> snd row"
proof (induction its arbitrary: i ps)
  case Nil
  then show ?case by simp
next
  case (Cons item its)
  from Cons.IH [OF decrementItem_nonneg [OF Cons.prems]] show ?case by simp
qed

lemma markPaid_products:
  "products (fst (markPaid env d rq)) = products d
   \<or> (\<exists>its. products (fst (markPaid env d rq)) = decrementStock env 0 (products d) its)"
  by (auto simp: markPaid_def Let_def split: request.splits option.splits)

text \<open>
  C4. For a line item whose product is read and whose update goes through, the stock
  stored afterwards is \<open>max 0 (stock - quantity)\<close>, and it is exactly 0 whenever the
  quantity is at least the stock read. Every stock value the loop body writes is
  non-negative, so a settlement call on a table without negative stock leaves the table
  without negative stock.
\<close>

theorem stock_decrement_clamped:
  "(\<forall>s. fetchStock (product_query_failed env i) ps (item_id item) = Some s
        \<and> \<not> product_update_failed env i \<longrightarrow>
        fetchStock False (decrementItem env i ps item) (item_id item) = Some (max 0 (s - quantity item))
        \<and> (s \<le> quantity item \<longrightarrow>
             fetchStock False (decrementItem env i ps item) (item_id item) = Some 0))
   \<and> (\<forall>row\<in>set (decrementItem env i ps item). row \<in> set ps \<or> 0 \<le> snd row)
   \<and> ((\<forall>row\<in>set (products d). 0 \<le> snd row) \<longrightarrow>
        (\<forall>row\<in>set (products (fst (markPaid env d rq))). 0 \<le> snd row))"
proof (intro conjI allI impI)
  fix s
  assume a: "fetchStock (product_query_failed env i) ps (item_id item) = Some s
        \<and> \<not> product_update_failed env i"
  then have "decrementItem env i ps item = updateStock ps (item_id item) (max 0 (s - quantity item))"
    by (simp add: decrementItem_def)
  moreover from a have "fetchStock False (updateStock ps (item_id item) (max 0 (s - quantity item)))
      (item_id item) = Some (max 0 (s - quantity item))"
    by (blast intro: fetchStock_updateStock)
  ultimately
  show w: "fetchStock False (decrementItem env i ps item) (item_id item) = Some (max 0 (s - quantity item))"
    by simp
  assume "s \<le> quantity item"
  with w show "fetchStock False (decrementItem env i ps item) (item_id item) = Some 0"
    by simp
next
  show "\<forall>row\<in>set (decrementItem env i ps item). row \<in> set ps \<or> 0 \<le> snd row"
    using decrementItem_written by blast
next
  assume nn: "\<forall>row\<in>set (products d). 0 \<le> snd row"
  from markPaid_products [of env d rq]
  show "\<forall>row\<in>set (products (fst (markPaid env d rq))). 0 \<le> snd row"
  proof
    assume "products (fst (markPaid env d rq)) = products d"
    with nn show ?thesis by simp
  next
    assume "\<exists>its. products (fst (markPaid env d rq)) = decrementStock env 0 (products d) its"
    then obtain its where "products (fst (markPaid env d rq)) = decrementStock env 0 (products d) its" ..
    with decrementStock_nonneg [OF nn, of env 0 its] show ?thesis by simp
  qed
qed

lemmas settlement_defs =
  settlementDb_def settlementEnv_def newOrderRow_def scenarioOrder_def scenarioItem_def
  markPaid_def fetchOrder_def fetchStock_def single_def decrementItem_def updateStock_def
  updateOrderPaid_def

text \<open>Stock 2 and an order of quantity 3: the stock becomes 0.\<close>

theorem stock_decrement_clamped_witness:
  "products (fst (markPaid (settlementEnv False) (settlementDb 2) (Validated ''o1''))) = [(''p1'', 0)]
   \<and> fetchStock False (decrementItem (settlementEnv False) 0 [(''p1'', 2)] scenarioItem) ''p1'' = Some 0"
proof -
  have f: "fetchStock (product_query_failed (settlementEnv False) 0) [(''p1'', 2)] (item_id scenarioItem) = Some 2
        \<and> \<not> product_update_failed (settlementEnv False) 0"
    by (simp add: settlement_defs)
  have q: "(2::int) \<le> quantity scenarioItem" by (simp add: scenarioItem_def)
  have nn: "\<forall>row\<in>set (products (settlementDb 2)). 0 \<le> snd row" by (simp add: settlementDb_def)
  have m: "products (fst (markPaid (settlementEnv False) (settlementDb 2) (Validated ''o1''))) = [(''p1'', 0)]"
    by (simp add: settlement_defs)
  from stock_decrement_clamped [of "settlementEnv False" 0 "[(''p1'', 2)]" scenarioItem
      "settlementDb 2" "Validated ''o1''"] f q nn m
  show ?thesis by (simp add: scenarioItem_def)
qed

lemma fetchOrder_SomeD:
  "fetchOrder failed os oid = Some row \<Longrightarrow> \<not> failed \<and> filter (\<lambda>r. order_id r = oid) os = [row]"
  by (auto simp: fetchOrder_def single_def split: if_splits list.splits)

lemma filter_updateOrderPaid:
  "filter (\<lambda>r. order_id r = oid) (updateOrderPaid os oid t)
     = map (\<lambda>r. r\<lparr>status := ''paid'', paid_at := Some t\<rparr>) (filter (\<lambda>r. order_id r = oid) os)"
  by (induction os) (simp_all add: updateOrderPaid_def)

lemma fetchOrder_updateOrderPaid:
  assumes "fetchOrder failed os oid = Some row"
  shows "fetchOrder False (updateOrderPaid os oid t) oid = Some (row\<lparr>status := ''paid'', paid_at := Some t\<rparr>)"
  using fetchOrder_SomeD [OF assms]
  by (simp add: fetchOrder_def single_def filter_updateOrderPaid)

lemma markPaid_already:
  assumes "fetchOrder (order_query_failed env) (orders d) oid = Some row" and "status row = ''paid''"
  shows "markPaid env d (Validated oid) = (d, alreadyPaid)"
  using assms by (simp add: markPaid_def alreadyPaid_def)

lemma markPaid_paid_unchanged:
  assumes "fetchOrder False (orders d) oid = Some row" and "status row = ''paid''"
  shows "fst (markPaid env2 d (Validated oid)) = d"
proof (cases "order_query_failed env2")
  case True
  then show ?thesis by (simp add: markPaid_def fetchOrder_def)
next
  case False
  with assms have "fetchOrder (order_query_failed env2) (orders d) oid = Some row" by simp
  from markPaid_already [OF this assms(2)] show ?thesis by simp
qed

lemma markPaid_settles:
  assumes "fetchOrder (order_query_failed env) (orders d) oid = Some row" and "status row \<noteq> ''paid''"
  shows "markPaid env d (Validated oid) =
     (if order_update_failed env
      then (d\<lparr>products := decrementStock env 0 (products d) (items row)\<rparr>,
            Response 500 (ErrorBody ''Failed to update order''))
      else (d\<lparr>products := decrementStock env 0 (products d) (items row),
              orders := updateOrderPaid (orders d) oid (paid_time env)\<rparr>,
            Response 200 (SuccessBody None)))"
  using assms by (simp add: markPaid_def Let_def)

text \<open>
  C2. A settlement call on an order whose stored status is already \<open>paid\<close> returns
  success ("Order already marked as paid") and leaves products and orders as they were.
  A call that settles an order (status not yet \<open>paid\<close>, final update accepted) runs the
  stock loop once over the order's line items; after it, and after any call that found
  the order paid, every further settlement call for that order leaves the datastore
  unchanged, and it answers "Order already marked as paid" whenever its order query goes
  through. So two settlements of one order decrement the stock once.
\<close>

theorem mark_paid_idempotent:
  assumes "fetchOrder (order_query_failed env) (orders d) oid = Some row"
    and "markPaid env d (Validated oid) = (d1, r1)"
  shows "(status row = ''paid'' \<longrightarrow> d1 = d \<and> r1 = alreadyPaid)
       \<and> (status row \<noteq> ''paid'' \<and> \<not> order_update_failed env \<longrightarrow>
            r1 = Response 200 (SuccessBody None)
            \<and> products d1 = decrementStock env 0 (products d) (items row))
       \<and> (r1 = alreadyPaid \<or> r1 = Response 200 (SuccessBody None) \<longrightarrow>
            (\<forall>env2. fst (markPaid env2 d1 (Validated oid)) = d1
                  \<and> (\<not> order_query_failed env2 \<longrightarrow> markPaid env2 d1 (Validated oid) = (d1, alreadyPaid))))"
proof (cases "status row = ''paid''")
  case True
  from markPaid_already [OF assms(1) True] assms(2) have eq: "d1 = d" "r1 = alreadyPaid" by simp_all
  from fetchOrder_SomeD [OF assms(1)] assms(1) have f: "fetchOrder False (orders d) oid = Some row"
    by simp
  have "\<forall>env2. fst (markPaid env2 d (Validated oid)) = d
                  \<and> (\<not> order_query_failed env2 \<longrightarrow> markPaid env2 d (Validated oid) = (d, alreadyPaid))"
    using markPaid_paid_unchanged [OF f True] markPaid_already [OF _ True, of _ d oid] f by simp
  with eq True show ?thesis by simp
next
  case False
  note settle = markPaid_settles [OF assms(1) False]
  show ?thesis
  proof (cases "order_update_failed env")
    case True
    with settle assms(2) have "r1 = Response 500 (ErrorBody ''Failed to update order'')" by simp
    with False True show ?thesis by (simp add: alreadyPaid_def)
  next
    case upd: False
    with settle assms(2) have d1: "d1 = d\<lparr>products := decrementStock env 0 (products d) (items row),
              orders := updateOrderPaid (orders d) oid (paid_time env)\<rparr>"
      and r1: "r1 = Response 200 (SuccessBody None)" by simp_all
    let ?row = "row\<lparr>status := ''paid'', paid_at := Some (paid_time env)\<rparr>"
    from fetchOrder_updateOrderPaid [OF assms(1)] d1
    have f: "fetchOrder False (orders d1) oid = Some ?row" by simp
    have p: "status ?row = ''paid''" by simp
    have "\<forall>env2. fst (markPaid env2 d1 (Validated oid)) = d1
                  \<and> (\<not> order_query_failed env2 \<longrightarrow> markPaid env2 d1 (Validated oid) = (d1, alreadyPaid))"
      using markPaid_paid_unchanged [OF f p] markPaid_already [OF _ p, of _ d1 oid] f by simp
    with False upd r1 d1 show ?thesis by simp
  qed
qed

text \<open>Stock 10, quantity 3: the first call leaves 7, the second call changes nothing.\<close>

theorem mark_paid_idempotent_witness:
  "markPaid (settlementEnv False) (settlementDb 10) (Validated ''o1'')
     = (\<lparr> products = [(''p1'', 7)],
          orders = [(newOrderRow ''o1'' ''ORD-1-ABCDEFG'' scenarioOrder)\<lparr>status := ''paid'', paid_at := Some 5000\<rparr>] \<rparr>,
        Response 200 (SuccessBody None))
   \<and> markPaid (settlementEnv False)
        \<lparr> products = [(''p1'', 7)],
          orders = [(newOrderRow ''o1'' ''ORD-1-ABCDEFG'' scenarioOrder)\<lparr>status := ''paid'', paid_at := Some 5000\<rparr>] \<rparr>
        (Validated ''o1'')
     = (\<lparr> products = [(''p1'', 7)],
          orders = [(newOrderRow ''o1'' ''ORD-1-ABCDEFG'' scenarioOrder)\<lparr>status := ''paid'', paid_at := Some 5000\<rparr>] \<rparr>,
        alreadyPaid)"
proof -
  let ?d1 = "\<lparr> products = [(''p1'', 7)],
          orders = [(newOrderRow ''o1'' ''ORD-1-ABCDEFG'' scenarioOrder)\<lparr>status := ''paid'', paid_at := Some 5000\<rparr>] \<rparr>"
  have f: "fetchOrder (order_query_failed (settlementEnv False)) (orders (settlementDb 10)) ''o1''
             = Some (newOrderRow ''o1'' ''ORD-1-ABCDEFG'' scenarioOrder)"
    by (simp add: settlementDb_def settlementEnv_def fetchOrder_def single_def newOrderRow_def)
  have m: "markPaid (settlementEnv False) (settlementDb 10) (Validated ''o1'')
     = (?d1, Response 200 (SuccessBody None))"
    by (simp add: settlement_defs)
  have q: "\<not> order_query_failed (settlementEnv False)" by (simp add: settlementEnv_def)
  from mark_paid_idempotent [OF f m] q
  have "markPaid (settlementEnv False) ?d1 (Validated ''o1'') = (?d1, alreadyPaid)" by blast
  with m show ?thesis by simp
qed

text \<open>
  C10. The stock loop runs before the order's status is updated. When that final update
  fails, the call answers 500 "Failed to update order", the decremented stock stays
  written, and the orders are as before, so the order is still not \<open>paid\<close>. A retry
  whose order query goes through therefore passes the already-paid check and runs the
  stock loop a second time, on the stock already decremented.
\<close>

theorem mark_paid_failed_update_keeps_decrements:
  assumes "fetchOrder (order_query_failed env) (orders d) oid = Some row"
    and "status row \<noteq> ''paid''"
    and "order_update_failed env"
    and "markPaid env d (Validated oid) = (d1, r1)"
  shows "r1 = Response 500 (ErrorBody ''Failed to update order'')
       \<and> products d1 = decrementStock env 0 (products d) (items row)
       \<and> orders d1 = orders d
       \<and> fetchOrder False (orders d1) oid = Some row
       \<and> (\<forall>env2. \<not> order_query_failed env2 \<longrightarrow>
             products (fst (markPaid env2 d1 (Validated oid)))
               = decrementStock env2 0 (decrementStock env 0 (products d) (items row)) (items row))"
proof -
  from markPaid_settles [OF assms(1,2)] assms(3,4)
  have d1: "d1 = d\<lparr>products := decrementStock env 0 (products d) (items row)\<rparr>"
    and r1: "r1 = Response 500 (ErrorBody ''Failed to update order'')" by simp_all
  from fetchOrder_SomeD [OF assms(1)] assms(1) d1
  have f: "fetchOrder False (orders d1) oid = Some row" by simp
  have "products (fst (markPaid env2 d1 (Validated oid)))
               = decrementStock env2 0 (decrementStock env 0 (products d) (items row)) (items row)"
    if "\<not> order_query_failed env2" for env2
  proof -
    from f that have "fetchOrder (order_query_failed env2) (orders d1) oid = Some row" by simp
    from markPaid_settles [OF this assms(2)] d1 show ?thesis by simp
  qed
  with d1 r1 f show ?thesis by simp
qed

text \<open>
  Stock 10, quantity 3, failing status update: the stock is 7 and the order still
  pending; the retry brings the stock to 4.
\<close>

theorem mark_paid_failed_update_keeps_decrements_witness:
  "markPaid (settlementEnv True) (settlementDb 10) (Validated ''o1'')
     = (settlementDb 7, Response 500 (ErrorBody ''Failed to update order''))
   \<and> status (newOrderRow ''o1'' ''ORD-1-ABCDEFG'' scenarioOrder) = ''pending''
   \<and> products (fst (markPaid (settlementEnv False) (settlementDb 7) (Validated ''o1''))) = [(''p1'', 4)]"
proof -
  have f: "fetchOrder (order_query_failed (settlementEnv True)) (orders (settlementDb 10)) ''o1''
             = Some (newOrderRow ''o1'' ''ORD-1-ABCDEFG'' scenarioOrder)"
    by (simp add: settlementDb_def settlementEnv_def fetchOrder_def single_def newOrderRow_def)
  have s: "status (newOrderRow ''o1'' ''ORD-1-ABCDEFG'' scenarioOrder) \<noteq> ''paid''"
    "status (newOrderRow ''o1'' ''ORD-1-ABCDEFG'' scenarioOrder) = ''pending''"
    by (simp_all add: newOrderRow_def)
  have u: "order_update_failed (settlementEnv True)" "\<not> order_query_failed (settlementEnv False)"
    by (simp_all add: settlementEnv_def)
  have m: "markPaid (settlementEnv True) (settlementDb 10) (Validated ''o1'')
     = (settlementDb 7, Response 500 (ErrorBody ''Failed to update order''))"
    by (simp add: settlement_defs)
  have "decrementStock (settlementEnv False) 0
          (decrementStock (settlementEnv True) 0 (products (settlementDb 10))
             (items (newOrderRow ''o1'' ''ORD-1-ABCDEFG'' scenarioOrder)))
          (items (newOrderRow ''o1'' ''ORD-1-ABCDEFG'' scenarioOrder)) = [(''p1'', 4)]"
    by (simp add: settlement_defs)
  with mark_paid_failed_update_keeps_decrements [OF f s(1) u(1) m] u(2) m s(2)
  show ?thesis by simp
qed

section \<open>Verified properties: payment-screen poller\<close>

lemma step_quiet:
  "\<not> observesTerminal p \<or> captured \<Longrightarrow>
     completionState (fetchInvoiceStatus captured k p s) = completionState s"
  by (cases p) (auto simp: fetchInvoiceStatus_def observesTerminal_def completionState_def Let_def)


lemma run_no_terminal:
  "\<forall>q\<in>set ps. \<not> observesTerminal q \<Longrightarrow> completionState (runPolls k ps s) = completionState s"
  by (induction ps arbitrary: k s) (simp_all add: step_quiet)





text \<open>Without a terminal-equivalent observation nothing fires.\<close>

lemma no_terminal_no_completion:
  assumes "\<forall>q\<in>set polls. \<not> observesTerminal q"
  shows "onComplete_calls (runPolls 0 polls initialScreen) = []
       \<and> settlements (runPolls 0 polls initialScreen) = []"
  using run_no_terminal [OF assms, of 0 initialScreen]
  by (simp add: completionState_def initialScreen_def)



text \<open>
  Whatever the callbacks of the polls captured (overlapping fetches run stale callbacks),
  the guard of \<open>handlePaymentComplete\<close> lets the settlement side effects run at most once.
\<close>

lemma stale_step:
  "(settlements (fetchInvoiceStatus c k p s) = settlements s
      \<and> (paymentProcessedRef s \<longrightarrow> paymentProcessedRef (fetchInvoiceStatus c k p s)))
   \<or> (\<not> paymentProcessedRef s \<and> paymentProcessedRef (fetchInvoiceStatus c k p s)
       \<and> settlements (fetchInvoiceStatus c k p s) = settlements s @ [k])"
  by (cases p) (auto simp: fetchInvoiceStatus_def Let_def handlePaymentComplete_def)

lemma stale_invariant:
  "settlements (runStalePolls k ps s) = settlements s
   \<or> (\<not> paymentProcessedRef s \<and> (\<exists>j. settlements (runStalePolls k ps s) = settlements s @ [j]))"
proof (induction ps arbitrary: k s)
  case Nil
  then show ?case by simp
next
  case (Cons cp ps)
  obtain c p where cp: "cp = (c, p)" by (cases cp)
  from Cons.IH [of "Suc k" "fetchInvoiceStatus c k p s"] stale_step [of c k p s] cp
  show ?case by auto
qed

lemma stale_polls_settle_at_most_once:
  "length (settlements (runStalePolls 0 ps initialScreen)) \<le> 1"
  using stale_invariant [of 0 ps initialScreen] by (auto simp: initialScreen_def)

section \<open>Verified properties: shipping-notification sweep\<close>

lemma updateSentAt_ids: "map order_id (updateSentAt os oid t) = map order_id os"
  by (induction os) (simp_all add: updateSentAt_def)

lemma updateSentAt_other:
  "r \<in> set os \<Longrightarrow> order_id r \<noteq> oid \<Longrightarrow> r \<in> set (updateSentAt os oid t)"
  by (auto simp: updateSentAt_def)

lemma updateSentAt_same:
  "r \<in> set os \<Longrightarrow> order_id r = oid \<Longrightarrow>
     r\<lparr>shipping_notification_sent_at := Some t\<rparr> \<in> set (updateSentAt os oid t)"
  by (auto simp: updateSentAt_def)

lemma processOrders_attempts:
  "snd (processOrders env i os sel)
     = map (\<lambda>j. (order_id (sel ! j), emailSent env (i + j))) [0..<length sel]"
proof (induction sel arbitrary: i os)
  case Nil
  then show ?case by simp
next
  case (Cons row sel)
  show ?case
    by (simp add: Let_def split_beta Cons.IH map_upt_Suc del: upt_Suc)
qed

lemma processOrders_ids:
  "map order_id (fst (processOrders env i os sel)) = map order_id os"
  by (induction sel arbitrary: i os) (simp_all add: Let_def split_beta updateSentAt_ids)

lemma processOrders_untouched:
  assumes "r \<in> set os"
    and "\<forall>j<length sel. order_id (sel ! j) = order_id r \<longrightarrow>
           \<not> (emailSent env (i + j) \<and> \<not> stamp_failed env (i + j))"
  shows "r \<in> set (fst (processOrders env i os sel))"
  using assms
proof (induction sel arbitrary: i os)
  case Nil
  then show ?case by simp
next
  case (Cons row sel)
  let ?os1 = "if emailSent env i \<and> \<not> stamp_failed env i
              then updateSentAt os (order_id row) (stamp_time env i) else os"
  from Cons.prems(2) [rule_format, of 0] Cons.prems(1)
  have r1: "r \<in> set ?os1" by (auto intro: updateSentAt_other)
  have "\<forall>j<length sel. order_id (sel ! j) = order_id r \<longrightarrow>
           \<not> (emailSent env (Suc i + j) \<and> \<not> stamp_failed env (Suc i + j))"
  proof (intro allI impI)
    fix j assume "j < length sel" "order_id (sel ! j) = order_id r"
    with Cons.prems(2) [rule_format, of "Suc j"]
    show "\<not> (emailSent env (Suc i + j) \<and> \<not> stamp_failed env (Suc i + j))" by simp
  qed
  from Cons.IH [OF r1 this] show ?case by (simp add: Let_def split_beta)
qed

lemma processOrders_stamped:
  assumes "r \<in> set os" and "j < length sel" and "order_id (sel ! j) = order_id r"
    and "emailSent env (i + j)" and "\<not> stamp_failed env (i + j)"
    and "\<forall>j'<length sel. j' \<noteq> j \<longrightarrow> order_id (sel ! j') \<noteq> order_id r"
  shows "r\<lparr>shipping_notification_sent_at := Some (stamp_time env (i + j))\<rparr>
           \<in> set (fst (processOrders env i os sel))"
  using assms
proof (induction sel arbitrary: i os j)
  case Nil
  then show ?case by simp
next
  case (Cons row sel)
  let ?os1 = "if emailSent env i \<and> \<not> stamp_failed env i
              then updateSentAt os (order_id row) (stamp_time env i) else os"
  have unfold: "fst (processOrders env i os (row # sel)) = fst (processOrders env (Suc i) ?os1 sel)"
    by (simp add: Let_def split_beta)
  show ?case
  proof (cases j)
    case 0
    let ?r = "r\<lparr>shipping_notification_sent_at := Some (stamp_time env i)\<rparr>"
    from 0 Cons.prems have "?r \<in> set ?os1" by (auto intro: updateSentAt_same)
    moreover have "\<forall>j'<length sel. order_id (sel ! j') = order_id ?r \<longrightarrow>
           \<not> (emailSent env (Suc i + j') \<and> \<not> stamp_failed env (Suc i + j'))"
    proof (intro allI impI)
      fix j' assume "j' < length sel" "order_id (sel ! j') = order_id ?r"
      with Cons.prems(6) [rule_format, of "Suc j'"] 0
      show "\<not> (emailSent env (Suc i + j') \<and> \<not> stamp_failed env (Suc i + j'))" by simp
    qed
    ultimately have "?r \<in> set (fst (processOrders env (Suc i) ?os1 sel))"
      by (rule processOrders_untouched)
    with 0 unfold show ?thesis by simp
  next
    case (Suc j0)
    from Cons.prems(6) [rule_format, of 0] Suc have "order_id row \<noteq> order_id r" by simp
    with Cons.prems(1) have r1: "r \<in> set ?os1" by (auto intro: updateSentAt_other)
    have d: "\<forall>j'<length sel. j' \<noteq> j0 \<longrightarrow> order_id (sel ! j') \<noteq> order_id r"
    proof (intro allI impI)
      fix j' assume "j' < length sel" "j' \<noteq> j0"
      with Cons.prems(6) [rule_format, of "Suc j'"] Suc
      show "order_id (sel ! j') \<noteq> order_id r" by simp
    qed
    from Suc Cons.prems have "j0 < length sel" "order_id (sel ! j0) = order_id r"
      "emailSent env (Suc i + j0)" "\<not> stamp_failed env (Suc i + j0)" by simp_all
    from Cons.IH [OF r1 this d] Suc unfold show ?thesis by simp
  qed
qed

lemma sweep_result:
  assumes "\<not> sweep_query_failed env"
  shows "processPendingNotifications env d =
     (d\<lparr>orders := fst (processOrders env 0 (orders d) (selectPending (sweep_now env) (orders d)))\<rparr>,
      snd (processOrders env 0 (orders d) (selectPending (sweep_now env) (orders d))))"
  using assms by (simp add: processPendingNotifications_def Let_def split_beta)

lemma selectPending_iff:
  "row \<in> set (selectPending now os) \<longleftrightarrow>
     row \<in> set os
     \<and> (\<exists>t. shipping_notification_scheduled_at row = Some t \<and> t \<le> now)
     \<and> shipping_notification_sent_at row = None
     \<and> tracking_number row \<noteq> None
     \<and> shipping_tracking_url row \<noteq> None
     \<and> shipping_email row \<noteq> None"
  by (auto simp: selectPending_def pendingNotification_def split: option.splits)

lemma distinct_ids_nth:
  assumes "distinct (map order_id sel)" and "i < length sel" and "j < length sel"
    and "order_id (sel ! j) = order_id (sel ! i)"
  shows "j = i"
proof -
  from assms(2-4) have e: "map order_id sel ! j = map order_id sel ! i" by simp
  from assms(1-3) have "(map order_id sel ! j = map order_id sel ! i) = (j = i)"
    by (intro nth_eq_iff_index_eq) simp_all
  with e show ?thesis by blast
qed

lemma distinct_ids_unique:
  assumes "distinct (map order_id os)" and "r \<in> set os" and "r' \<in> set os"
    and "order_id r = order_id r'"
  shows "r = r'"
  using assms by (auto simp: distinct_map dest: inj_onD)


text \<open>
  C9, as stated, fails: the query has one more condition. An order whose notification was
  scheduled in the past, with no sent timestamp and with both tracking fields populated,
  is not selected when it has no shipping email.
\<close>

theorem sweep_missing_email_counterexample:
  "shipping_notification_scheduled_at (shippedRow\<lparr>shipping_email := None\<rparr>) = Some 0
   \<and> (0::int) < 3600000
   \<and> shipping_notification_sent_at (shippedRow\<lparr>shipping_email := None\<rparr>) = None
   \<and> tracking_number (shippedRow\<lparr>shipping_email := None\<rparr>) = Some ''1Z999''
   \<and> shipping_tracking_url (shippedRow\<lparr>shipping_email := None\<rparr>) = Some ''https://carrier.example/1Z999''
   \<and> selectPending 3600000 [shippedRow\<lparr>shipping_email := None\<rparr>] = []"
  by (simp add: shippedRow_def newOrderRow_def selectPending_def pendingNotification_def)

text \<open>
  C9, amended. A sweep whose query goes through, over a table with distinct order ids,
  selects exactly the orders whose scheduled timestamp is set and not after the clock
  reading, whose sent timestamp is absent, whose tracking number and tracking URL are
  present, and whose shipping email is present. It attempts one send per selected order,
  in order. An order whose send succeeds and whose stamping update is accepted carries
  the sent timestamp afterwards and is selected by no later sweep; an order whose send
  fails is left as it was and is selected again by any sweep at the same or a later clock
  reading.
\<close>

theorem sweep_selects_and_stamps:
  assumes "\<not> sweep_query_failed env"
    and "distinct (map order_id (orders d))"
    and "due = selectPending (sweep_now env) (orders d)"
    and "processPendingNotifications env d = (d', attempts)"
  shows "(\<forall>row. row \<in> set due \<longleftrightarrow>
            row \<in> set (orders d)
            \<and> (\<exists>t. shipping_notification_scheduled_at row = Some t \<and> t \<le> sweep_now env)
            \<and> shipping_notification_sent_at row = None
            \<and> tracking_number row \<noteq> None
            \<and> shipping_tracking_url row \<noteq> None
            \<and> shipping_email row \<noteq> None)
       \<and> attempts = map (\<lambda>i. (order_id (due ! i), emailSent env i)) [0..<length due]
       \<and> (\<forall>i<length due. emailSent env i \<and> \<not> stamp_failed env i \<longrightarrow>
             (due ! i)\<lparr>shipping_notification_sent_at := Some (stamp_time env i)\<rparr> \<in> set (orders d')
             \<and> (\<forall>now' row. row \<in> set (selectPending now' (orders d')) \<longrightarrow>
                   order_id row \<noteq> order_id (due ! i)))
       \<and> (\<forall>i<length due. \<not> emailSent env i \<longrightarrow>
             due ! i \<in> set (orders d')
             \<and> (\<forall>now'. sweep_now env \<le> now' \<longrightarrow> due ! i \<in> set (selectPending now' (orders d'))))"
proof (intro conjI allI impI)
  fix row
  show "row \<in> set due \<longleftrightarrow>
            row \<in> set (orders d)
            \<and> (\<exists>t. shipping_notification_scheduled_at row = Some t \<and> t \<le> sweep_now env)
            \<and> shipping_notification_sent_at row = None
            \<and> tracking_number row \<noteq> None
            \<and> shipping_tracking_url row \<noteq> None
            \<and> shipping_email row \<noteq> None"
    unfolding assms(3) by (rule selectPending_iff)
next
  from sweep_result [OF assms(1), of d] assms(3,4)
  have d': "orders d' = fst (processOrders env 0 (orders d) due)"
    and att: "attempts = snd (processOrders env 0 (orders d) due)" by auto
  from att show "attempts = map (\<lambda>i. (order_id (due ! i), emailSent env i)) [0..<length due]"
    by (simp add: processOrders_attempts)
  have dsel: "distinct (map order_id due)"
    unfolding assms(3) selectPending_def using assms(2) by (rule distinct_map_filter)
  have dd': "distinct (map order_id (orders d'))"
    using assms(2) by (simp add: d' processOrders_ids)
  {
    fix i assume i: "i < length due" and ok: "emailSent env i \<and> \<not> stamp_failed env i"
    let ?r = "(due ! i)\<lparr>shipping_notification_sent_at := Some (stamp_time env i)\<rparr>"
    from i have mem: "due ! i \<in> set (orders d)"
      using assms(3) by (metis nth_mem selectPending_iff)
    have others: "\<forall>j'<length due. j' \<noteq> i \<longrightarrow> order_id (due ! j') \<noteq> order_id (due ! i)"
      using distinct_ids_nth [OF dsel i] by blast
    from processOrders_stamped [OF mem i refl _ _ others, of env 0] ok
    show stamped: "?r \<in> set (orders d')" by (simp add: d')
    fix now' row assume row: "row \<in> set (selectPending now' (orders d'))"
    show "order_id row \<noteq> order_id (due ! i)"
    proof
      assume "order_id row = order_id (due ! i)"
      then have "order_id row = order_id ?r" by simp
      moreover from row have "row \<in> set (orders d')" by (simp add: selectPending_iff)
      ultimately have "row = ?r" using dd' stamped by (blast intro: distinct_ids_unique)
      with row show False by (simp add: selectPending_iff)
    qed
  }
  {
    fix i assume i: "i < length due" and fail: "\<not> emailSent env i"
    from i have sel: "due ! i \<in> set (selectPending (sweep_now env) (orders d))"
      using assms(3) by simp
    then have mem: "due ! i \<in> set (orders d)" by (simp add: selectPending_iff)
    have "\<forall>j<length due. order_id (due ! j) = order_id (due ! i) \<longrightarrow>
           \<not> (emailSent env (0 + j) \<and> \<not> stamp_failed env (0 + j))"
      using distinct_ids_nth [OF dsel i] fail by auto
    from processOrders_untouched [OF mem this]
    show kept: "due ! i \<in> set (orders d')" by (simp add: d')
    fix now' assume "sweep_now env \<le> now'"
    with sel kept show "due ! i \<in> set (selectPending now' (orders d'))"
      by (auto simp: selectPending_iff)
  }
qed

text \<open>
  Scenario D: scheduled an hour before the sweep, not yet sent, tracking fields and email
  present. A successful send stamps the order and the next sweep selects nothing; a failed
  send leaves the order selected by the next sweep.
\<close>

theorem sweep_selects_and_stamps_witness:
  "processPendingNotifications (sweepEnv True) \<lparr> products = [], orders = [shippedRow] \<rparr>
     = (\<lparr> products = [], orders = [shippedRow\<lparr>shipping_notification_sent_at := Some 3600001\<rparr>] \<rparr>,
        [(''o1'', True)])
   \<and> selectPending 3600002 [shippedRow\<lparr>shipping_notification_sent_at := Some 3600001\<rparr>] = []
   \<and> processPendingNotifications (sweepEnv False) \<lparr> products = [], orders = [shippedRow] \<rparr>
     = (\<lparr> products = [], orders = [shippedRow] \<rparr>, [(''o1'', False)])
   \<and> selectPending 3600002 [shippedRow] = [shippedRow]"
proof -
  let ?d = "\<lparr> products = [], orders = [shippedRow] \<rparr>"
  let ?d1 = "\<lparr> products = [], orders = [shippedRow\<lparr>shipping_notification_sent_at := Some 3600001\<rparr>] \<rparr>"
  have sel: "selectPending 3600000 [shippedRow] = [shippedRow]"
    by (simp add: shippedRow_def newOrderRow_def scenarioOrder_def scenarioAddress_def
        selectPending_def pendingNotification_def)
  have q: "\<not> sweep_query_failed (sweepEnv True)" "\<not> sweep_query_failed (sweepEnv False)"
    by (simp_all add: sweepEnv_def)
  have dist: "distinct (map order_id (orders ?d))" by simp
  have s1: "[shippedRow] = selectPending (sweep_now (sweepEnv True)) (orders ?d)"
    and s2: "[shippedRow] = selectPending (sweep_now (sweepEnv False)) (orders ?d)"
    using sel by (simp_all add: sweepEnv_def)
  have p1: "processPendingNotifications (sweepEnv True) ?d = (?d1, [(''o1'', True)])"
    using sel by (simp add: processPendingNotifications_def sweepEnv_def updateSentAt_def
        shippedRow_def newOrderRow_def)
  have p2: "processPendingNotifications (sweepEnv False) ?d = (?d, [(''o1'', False)])"
    using sel by (simp add: processPendingNotifications_def sweepEnv_def updateSentAt_def
        shippedRow_def newOrderRow_def)
  from sweep_selects_and_stamps [OF q(1) dist s1 p1]
  have a: "\<forall>row. row \<in> set (selectPending 3600002
                [shippedRow\<lparr>shipping_notification_sent_at := Some 3600001\<rparr>]) \<longrightarrow>
             order_id row \<noteq> order_id shippedRow"
    by (simp add: sweepEnv_def)
  have "selectPending 3600002 [shippedRow\<lparr>shipping_notification_sent_at := Some 3600001\<rparr>] = []"
  proof (rule ccontr)
    assume "selectPending 3600002 [shippedRow\<lparr>shipping_notification_sent_at := Some 3600001\<rparr>] \<noteq> []"
    then have "shippedRow\<lparr>shipping_notification_sent_at := Some 3600001\<rparr>
        \<in> set (selectPending 3600002 [shippedRow\<lparr>shipping_notification_sent_at := Some 3600001\<rparr>])"
      by (simp add: selectPending_def split: if_splits)
    with a have "order_id (shippedRow\<lparr>shipping_notification_sent_at := Some 3600001\<rparr>)
        \<noteq> order_id shippedRow" by blast
    then show False by simp
  qed
  moreover from sweep_selects_and_stamps [OF q(2) dist s2 p2]
  have "shippedRow \<in> set (selectPending 3600002 [shippedRow])"
    by (simp add: sweepEnv_def)
  then have "selectPending 3600002 [shippedRow] = [shippedRow]"
    by (simp add: selectPending_def split: if_splits)
  ultimately show ?thesis using p1 p2 by simp
qed

end
